theory Spec2Isabelle
  imports Complex_Main
begin

section \<open>JavaScript values\<close>

text \<open>
  The handlers of \<^verbatim>\<open>src/routes/properties.js\<close> read the fields of a JSON request body
  and combine them with \<^verbatim>\<open>||\<close> and \<^verbatim>\<open>!== undefined\<close>. A field is
  therefore a JavaScript value: absent (\<^verbatim>\<open>undefined\<close>), \<^verbatim>\<open>null\<close>, a boolean,
  a number, a string, an object (its members in order), or something else (an array,
  kept as its JSON text). Numbers of a body are read as integers; a fractional number is
  non-zero and never accepted by an integer column, so it is filed under \<open>JOther\<close>.
\<close>

datatype jsval =
    JUndefined
  | JNull
  | JBool bool
  | JNum int
  | JStr string
  | JObject "(string \<times> jsval) list"
  | JOther string

text \<open>ToBoolean: the values that \<^verbatim>\<open>!x\<close> and \<^verbatim>\<open>x || y\<close> take as true.\<close>

fun truthy :: "jsval \<Rightarrow> bool" where
  "truthy JUndefined = False"
| "truthy JNull = False"
| "truthy (JBool b) = b"
| "truthy (JNum n) = (n \<noteq> 0)"
| "truthy (JStr s) = (s \<noteq> [])"
| "truthy (JObject members) = True"
| "truthy (JOther j) = True"

text \<open>\<^verbatim>\<open>a || b\<close>\<close>

definition js_or :: "jsval \<Rightarrow> jsval \<Rightarrow> jsval" where
  "js_or a b = (if truthy a then a else b)"

text \<open>\<^verbatim>\<open>a !== undefined ? a : b\<close>\<close>

definition js_present_or :: "jsval \<Rightarrow> jsval \<Rightarrow> jsval" where
  "js_present_or a b = (if a \<noteq> JUndefined then a else b)"

section \<open>Data model\<close>

text \<open>
  The seven fields that a request body carries and that the \<^verbatim>\<open>data\<close> object of
  \<^verbatim>\<open>prisma.property.create\<close> and \<^verbatim>\<open>prisma.property.update\<close> carries.
\<close>

record property_data =
  name :: jsval
  location :: jsval
  brochure :: jsval
  image' :: jsval
  model3d :: jsval
  availableApartments :: jsval
  status :: jsval

type_synonym ident = string

text \<open>A stored Property: the fields, the identifier and the two timestamps.\<close>

record property = property_data +
  id' :: ident
  createdAt :: nat
  updatedAt :: nat

record pagination =
  currentPage :: int
  totalPages :: int
  totalItems :: int
  itemsPerPage :: int
  hasNextPage :: bool
  hasPrevPage :: bool

text \<open>The JSON bodies that the handlers send, and a response: status code and body.\<close>

datatype resp_body =
    Message string
  | MessageProperty string property
  | MessageError string string
  | PropertyOnly property
  | Listing "property list" pagination

type_synonym response = "nat \<times> resp_body"

section \<open>The persistence client\<close>

text \<open>
  \<^verbatim>\<open>prisma.property\<close> is required from \<^verbatim>\<open>../lib/prisma\<close>; the handlers are
  written against its six calls, so the model takes the client as a parameter: each call
  reads the store \<open>'s\<close> and either rejects with an Error (\<open>Inl\<close> of its message, the
  store left as it was) or resolves. Only create, update and delete return a new store.
\<close>

datatype sort_order = Asc | Desc

record 's client =
  property_create :: "property_data \<Rightarrow> 's \<Rightarrow> string + (property \<times> 's)"
  property_count :: "'s \<Rightarrow> string + nat"
  property_findMany :: "sort_order \<Rightarrow> int \<Rightarrow> int \<Rightarrow> 's \<Rightarrow> string + property list"
  property_findUnique :: "ident \<Rightarrow> 's \<Rightarrow> string + property option"
  property_update :: "ident \<Rightarrow> property_data \<Rightarrow> 's \<Rightarrow> string + (property \<times> 's)"
  property_delete :: "ident \<Rightarrow> 's \<Rightarrow> string + 's"

section \<open>POST /\<close>

text \<open>The \<^verbatim>\<open>data\<close> object of lines 31-39.\<close>

definition create_data :: "property_data \<Rightarrow> property_data" where
  "create_data b =
     \<lparr> name = name b,
       location = location b,
       brochure = js_or (brochure b) JNull,
       image' = js_or (image' b) JNull,
       model3d = js_or (model3d b) JNull,
       availableApartments = js_or (availableApartments b) (JNum 0),
       status = js_or (status b) (JStr ''available'') \<rparr>"

text \<open>The \<^verbatim>\<open>try\<close> block of the handler: \<open>Inl\<close> is an Error thrown inside it.\<close>

definition router_post_try :: "'s client \<Rightarrow> property_data \<Rightarrow> 's \<Rightarrow> string + (response \<times> 's)" where
  "router_post_try c b s =
     (if \<not> truthy (name b) \<or> \<not> truthy (location b)
      then Inr ((400, Message ''Name and location are required''), s)
      else (case property_create c (create_data b) s of
              Inl e \<Rightarrow> Inl e
            | Inr (p, s') \<Rightarrow>
                Inr ((201, MessageProperty ''Property created successfully'' p), s')))"

text \<open>The handler: the \<^verbatim>\<open>try\<close> block and its \<^verbatim>\<open>catch\<close>.\<close>

definition router_post :: "'s client \<Rightarrow> property_data \<Rightarrow> 's \<Rightarrow> response \<times> 's" where
  "router_post c b s =
     (case router_post_try c b s of
        Inl e \<Rightarrow> ((500, MessageError ''Server error during property creation'' e), s)
      | Inr r \<Rightarrow> r)"

section \<open>GET /\<close>

subsection \<open>parseInt\<close>

text \<open>
  \<^verbatim>\<open>parseInt(string)\<close> with no radix, as ECMAScript defines it: leading white space is
  dropped, one sign is read, a \<^verbatim>\<open>0x\<close> or \<^verbatim>\<open>0X\<close> prefix selects radix 16
  (radix 10 otherwise), the longest run of digits of that radix is the number, anything
  after it is ignored, and no digit at all gives NaN (\<open>None\<close>). A \<open>char\<close> is a code
  point below 256, so the white space is TAB, LF, VT, FF, CR, SP and NBSP. The value
  is read exactly, as the run of digits denotes it (a double is exact up to \<open>2 ^ 53\<close>).
\<close>

definition is_white_space :: "char \<Rightarrow> bool" where
  "is_white_space ch =
     (ch = CHR 0x09 \<or> ch = CHR 0x0A \<or> ch = CHR 0x0B \<or> ch = CHR 0x0C \<or> ch = CHR 0x0D
      \<or> ch = CHR 0x20 \<or> ch = CHR 0xA0)"

definition digit_value :: "char \<Rightarrow> nat option" where
  "digit_value ch =
     (let k = (of_char ch :: nat) in
      if 48 \<le> k \<and> k \<le> 57 then Some (k - 48)
      else if 97 \<le> k \<and> k \<le> 122 then Some (k - 87)
      else if 65 \<le> k \<and> k \<le> 90 then Some (k - 55)
      else None)"

definition is_digit_of :: "nat \<Rightarrow> char \<Rightarrow> bool" where
  "is_digit_of radix ch = (case digit_value ch of None \<Rightarrow> False | Some d \<Rightarrow> d < radix)"

definition digits_to_int :: "nat \<Rightarrow> string \<Rightarrow> int" where
  "digits_to_int radix z =
     foldl (\<lambda>acc ch. acc * int radix + int (case digit_value ch of None \<Rightarrow> 0 | Some d \<Rightarrow> d)) 0 z"

definition parseInt :: "string \<Rightarrow> int option" where
  "parseInt inputString =
     (let S = dropWhile is_white_space inputString;
          sign = (if S \<noteq> [] \<and> hd S = CHR ''-'' then - 1 else (1::int));
          S1 = (if S \<noteq> [] \<and> (hd S = CHR ''+'' \<or> hd S = CHR ''-'') then tl S else S);
          hex = (length S1 \<ge> 2 \<and> (take 2 S1 = ''0x'' \<or> take 2 S1 = ''0X''));
          R = (if hex then 16 else 10);
          S2 = (if hex then drop 2 S1 else S1);
          Z = takeWhile (is_digit_of R) S2
      in if Z = [] then None else Some (sign * digits_to_int R Z))"

subsection \<open>The handler\<close>

text \<open>
  \<^verbatim>\<open>req.query\<close>: each parameter is absent or a string. \<^verbatim>\<open>parseInt(undefined)\<close>
  parses the string \<^verbatim>\<open>"undefined"\<close>.
\<close>

record list_query =
  page :: "string option"
  limit :: "string option"

definition parseInt_param :: "string option \<Rightarrow> int option" where
  "parseInt_param v = parseInt (case v of None \<Rightarrow> ''undefined'' | Some str \<Rightarrow> str)"

text \<open>\<^verbatim>\<open>n || d\<close> on numbers: NaN and zero are falsy.\<close>

definition num_or :: "int option \<Rightarrow> int \<Rightarrow> int" where
  "num_or n d = (case n of None \<Rightarrow> d | Some k \<Rightarrow> if k = 0 then d else k)"

definition resolve_page :: "list_query \<Rightarrow> int" where
  "resolve_page q = num_or (parseInt_param (page q)) 1"

definition resolve_limit :: "list_query \<Rightarrow> int" where
  "resolve_limit q = num_or (parseInt_param (limit q)) 10"

text \<open>
  JavaScript numbers are doubles. \<open>parseInt\<close> above yields the integer that the digits
  denote and the handler below computes with integers; this is the arithmetic of the code
  as long as every number involved is a safe integer (\<^verbatim>\<open>Number.isSafeInteger\<close>: its
  magnitude is below \<open>2 ^ 53\<close>), where parsing, \<^verbatim>\<open>page - 1\<close>, the product and the
  rounded-up quotient of doubles are exact. Beyond that range the code rounds to the
  nearest double or reaches \<^verbatim>\<open>Infinity\<close> and \<^verbatim>\<open>NaN\<close>, which the integers here
  do not follow; what is proved of the numbers of a page is proved for safe integers.
\<close>

definition safe_integer :: "int \<Rightarrow> bool" where
  "safe_integer k = (\<bar>k\<bar> < 2 ^ 53)"

text \<open>\<^verbatim>\<open>Math.ceil(totalCount / limit)\<close>: the quotient of two integers, rounded up.\<close>

definition math_ceil_div :: "int \<Rightarrow> int \<Rightarrow> int" where
  "math_ceil_div a b = \<lceil>real_of_int a / real_of_int b\<rceil>"

definition router_get_try :: "'s client \<Rightarrow> list_query \<Rightarrow> 's \<Rightarrow> string + (response \<times> 's)" where
  "router_get_try c q s =
     (let page = resolve_page q;
          limit = resolve_limit q;
          skip = (page - 1) * limit
      in case property_count c s of
           Inl e \<Rightarrow> Inl e
         | Inr totalCount \<Rightarrow>
             (case property_findMany c Desc skip limit s of
                Inl e \<Rightarrow> Inl e
              | Inr properties \<Rightarrow>
                  Inr ((200, Listing properties
                         \<lparr> currentPage = page,
                           totalPages = math_ceil_div (int totalCount) limit,
                           totalItems = int totalCount,
                           itemsPerPage = limit,
                           hasNextPage = (page < math_ceil_div (int totalCount) limit),
                           hasPrevPage = (page > 1) \<rparr>), s)))"

definition router_get :: "'s client \<Rightarrow> list_query \<Rightarrow> 's \<Rightarrow> response \<times> 's" where
  "router_get c q s =
     (case router_get_try c q s of
        Inl e \<Rightarrow> ((500, MessageError ''Server error'' e), s)
      | Inr r \<Rightarrow> r)"

section \<open>GET /:id\<close>

definition router_get_id_try :: "'s client \<Rightarrow> ident \<Rightarrow> 's \<Rightarrow> string + (response \<times> 's)" where
  "router_get_id_try c i s =
     (case property_findUnique c i s of
        Inl e \<Rightarrow> Inl e
      | Inr None \<Rightarrow> Inr ((404, Message ''Property not found''), s)
      | Inr (Some p) \<Rightarrow> Inr ((200, PropertyOnly p), s))"

definition router_get_id :: "'s client \<Rightarrow> ident \<Rightarrow> 's \<Rightarrow> response \<times> 's" where
  "router_get_id c i s =
     (case router_get_id_try c i s of
        Inl e \<Rightarrow> ((500, MessageError ''Server error'' e), s)
      | Inr r \<Rightarrow> r)"

section \<open>PUT /:id\<close>

text \<open>The \<^verbatim>\<open>data\<close> object of lines 155-163.\<close>

definition update_data :: "property_data \<Rightarrow> property \<Rightarrow> property_data" where
  "update_data b existingProperty =
     \<lparr> name = js_or (name b) (name existingProperty),
       location = js_or (location b) (location existingProperty),
       brochure = js_present_or (brochure b) (brochure existingProperty),
       image' = js_present_or (image' b) (image' existingProperty),
       model3d = js_present_or (model3d b) (model3d existingProperty),
       availableApartments =
         js_present_or (availableApartments b) (availableApartments existingProperty),
       status = js_or (status b) (status existingProperty) \<rparr>"

definition router_put_id_try ::
  "'s client \<Rightarrow> ident \<Rightarrow> property_data \<Rightarrow> 's \<Rightarrow> string + (response \<times> 's)" where
  "router_put_id_try c i b s =
     (case property_findUnique c i s of
        Inl e \<Rightarrow> Inl e
      | Inr None \<Rightarrow> Inr ((404, Message ''Property not found''), s)
      | Inr (Some existingProperty) \<Rightarrow>
          (case property_update c i (update_data b existingProperty) s of
             Inl e \<Rightarrow> Inl e
           | Inr (p, s') \<Rightarrow>
               Inr ((200, MessageProperty ''Property updated successfully'' p), s')))"

definition router_put_id :: "'s client \<Rightarrow> ident \<Rightarrow> property_data \<Rightarrow> 's \<Rightarrow> response \<times> 's" where
  "router_put_id c i b s =
     (case router_put_id_try c i b s of
        Inl e \<Rightarrow> ((500, MessageError ''Server error during property update'' e), s)
      | Inr r \<Rightarrow> r)"

section \<open>DELETE /:id\<close>

definition router_delete_id_try :: "'s client \<Rightarrow> ident \<Rightarrow> 's \<Rightarrow> string + (response \<times> 's)" where
  "router_delete_id_try c i s =
     (case property_findUnique c i s of
        Inl e \<Rightarrow> Inl e
      | Inr None \<Rightarrow> Inr ((404, Message ''Property not found''), s)
      | Inr (Some existingProperty) \<Rightarrow>
          (case property_delete c i s of
             Inl e \<Rightarrow> Inl e
           | Inr s' \<Rightarrow> Inr ((200, Message ''Property deleted successfully''), s')))"

definition router_delete_id :: "'s client \<Rightarrow> ident \<Rightarrow> 's \<Rightarrow> response \<times> 's" where
  "router_delete_id c i s =
     (case router_delete_id_try c i s of
        Inl e \<Rightarrow> ((500, MessageError ''Server error during property deletion'' e), s)
      | Inr r \<Rightarrow> r)"

section \<open>An in-memory persistence client\<close>

text \<open>
  Modelled from the spec: \<^verbatim>\<open>../lib/prisma\<close> and the database schema are not among the
  sources. The spec's data model (section 3) types the columns: \<open>name\<close>, \<open>location\<close>
  and \<open>status\<close> are text, \<open>brochure\<close>, \<open>image\<close> and \<open>model3d\<close> are text or null,
  \<open>availableApartments\<close> is an integer; a \<^verbatim>\<open>data\<close> object of create that does not
  fit is rejected.
\<close>

definition is_text :: "jsval \<Rightarrow> bool" where
  "is_text v = (case v of JStr _ \<Rightarrow> True | _ \<Rightarrow> False)"

definition is_text_or_null :: "jsval \<Rightarrow> bool" where
  "is_text_or_null v = (case v of JStr _ \<Rightarrow> True | JNull \<Rightarrow> True | _ \<Rightarrow> False)"

definition is_integer :: "jsval \<Rightarrow> bool" where
  "is_integer v = (case v of JNum _ \<Rightarrow> True | _ \<Rightarrow> False)"

definition valid_data :: "property_data \<Rightarrow> bool" where
  "valid_data d =
     (is_text (name d) \<and> is_text (location d) \<and> is_text_or_null (brochure d)
      \<and> is_text_or_null (image' d) \<and> is_text_or_null (model3d d)
      \<and> is_integer (availableApartments d) \<and> is_text (status d))"

text \<open>
  Modelled from the spec: the store is the list of Property records, in the order of
  their creation. What the persistence layer draws for one call, the fresh identifier and
  the time, is an input \<open>env\<close> of the call.
\<close>

type_synonym db = "property list"

record env =
  uuid :: ident
  now :: nat

text \<open>
  Modelled from the spec: create(data) assigns the identifier and the timestamps and
  appends the record; identifiers are unique, so an identifier already in use is a
  constraint failure.
\<close>

definition prisma_create :: "env \<Rightarrow> property_data \<Rightarrow> db \<Rightarrow> string + (property \<times> db)" where
  "prisma_create e d s =
     (if \<not> valid_data d then Inl ''Invalid value in data''
      else if uuid e \<in> set (map id' s) then Inl ''Unique constraint failed on the fields: (id)''
      else (let p = \<lparr> name = name d, location = location d, brochure = brochure d,
                      image' = image' d, model3d = model3d d,
                      availableApartments = availableApartments d, status = status d,
                      id' = uuid e, createdAt = now e, updatedAt = now e \<rparr>
            in Inr (p, s @ [p])))"

text \<open>Modelled from the spec: count() is the number of records.\<close>

definition prisma_count :: "db \<Rightarrow> string + nat" where
  "prisma_count s = Inr (length s)"

text \<open>
  Modelled from the spec: findMany({orderBy, skip, take}) orders the records by
  \<open>createdAt\<close>, skips \<open>skip\<close> of them and yields up to \<open>take\<close>. The spec leaves a
  negative \<open>skip\<close> or \<open>take\<close> open; here, as in the Prisma client, a negative \<open>skip\<close>
  is rejected and a negative \<open>take\<close> counts from the end of the ordering.
\<close>

definition ordered_by_createdAt :: "sort_order \<Rightarrow> db \<Rightarrow> property list" where
  "ordered_by_createdAt ord s =
     (case ord of Asc \<Rightarrow> sort_key createdAt s | Desc \<Rightarrow> rev (sort_key createdAt s))"

definition prisma_findMany :: "sort_order \<Rightarrow> int \<Rightarrow> int \<Rightarrow> db \<Rightarrow> string + property list" where
  "prisma_findMany ord skip tk s =
     (if skip < 0 then Inl ''Invalid value for skip argument: Value can only be positive''
      else if 0 \<le> tk then Inr (take (nat tk) (drop (nat skip) (ordered_by_createdAt ord s)))
      else Inr (rev (take (nat (- tk)) (drop (nat skip) (rev (ordered_by_createdAt ord s))))))"

text \<open>Modelled from the spec: findUnique({id}) is the record of that identifier, or null.\<close>

definition prisma_findUnique :: "ident \<Rightarrow> db \<Rightarrow> string + property option" where
  "prisma_findUnique i s = Inr (find (\<lambda>p. id' p = i) s)"

text \<open>
  Modelled from the spec: update({id, data}) overwrites the seven fields of the record
  and refreshes its update timestamp; it fails when the record does not exist. The spec
  says no more; what the values of \<^verbatim>\<open>data\<close> may be is modelled after the Prisma
  client: a field that is \<^verbatim>\<open>undefined\<close> is left as it is, a value of the column's
  type is stored, and so is the operand of an operator object: \<^verbatim>\<open>{set: v}\<close> on every
  column, and \<^verbatim>\<open>{increment: n}\<close>, \<^verbatim>\<open>{decrement: n}\<close>, \<^verbatim>\<open>{multiply: n}\<close>,
  \<^verbatim>\<open>{divide: n}\<close> on the integer column (the quotient truncated towards zero).
  Anything else is rejected.
\<close>

definition operand :: "string \<Rightarrow> jsval \<Rightarrow> jsval option" where
  "operand operator v =
     (case v of
        JObject [(k, x)] \<Rightarrow> if k = operator then Some x else None
      | _ \<Rightarrow> None)"

definition update_text :: "jsval \<Rightarrow> jsval \<Rightarrow> jsval option" where
  "update_text old v =
     (if v = JUndefined then Some old
      else if is_text v then Some v
      else (case operand ''set'' v of
              Some x \<Rightarrow> if is_text x then Some x else None
            | None \<Rightarrow> None))"

definition update_text_or_null :: "jsval \<Rightarrow> jsval \<Rightarrow> jsval option" where
  "update_text_or_null old v =
     (if v = JUndefined then Some old
      else if is_text_or_null v then Some v
      else (case operand ''set'' v of
              Some x \<Rightarrow> if is_text_or_null x then Some x else None
            | None \<Rightarrow> None))"

definition truncated_quotient :: "int \<Rightarrow> int \<Rightarrow> int" where
  "truncated_quotient a n = sgn a * sgn n * (\<bar>a\<bar> div \<bar>n\<bar>)"

definition operand_integer :: "string \<Rightarrow> jsval \<Rightarrow> int option" where
  "operand_integer operator v =
     (case operand operator v of Some (JNum n) \<Rightarrow> Some n | _ \<Rightarrow> None)"

definition update_integer :: "jsval \<Rightarrow> jsval \<Rightarrow> jsval option" where
  "update_integer old v =
     (if v = JUndefined then Some old
      else if is_integer v then Some v
      else (case operand_integer ''set'' v of
              Some n \<Rightarrow> Some (JNum n)
            | None \<Rightarrow>
               (case old of
                  JNum a \<Rightarrow>
                    (case operand_integer ''increment'' v of
                       Some n \<Rightarrow> Some (JNum (a + n))
                     | None \<Rightarrow>
                    (case operand_integer ''decrement'' v of
                       Some n \<Rightarrow> Some (JNum (a - n))
                     | None \<Rightarrow>
                    (case operand_integer ''multiply'' v of
                       Some n \<Rightarrow> Some (JNum (a * n))
                     | None \<Rightarrow>
                    (case operand_integer ''divide'' v of
                       Some n \<Rightarrow>
                         if n = 0 then None else Some (JNum (truncated_quotient a n))
                     | None \<Rightarrow> None))))
                | _ \<Rightarrow> None)))"

definition prisma_update :: "env \<Rightarrow> ident \<Rightarrow> property_data \<Rightarrow> db \<Rightarrow> string + (property \<times> db)" where
  "prisma_update e i d s =
     (case find (\<lambda>p. id' p = i) s of
        None \<Rightarrow> Inl ''Record to update not found.''
      | Some old \<Rightarrow>
          (case (update_text (name old) (name d),
                 update_text (location old) (location d),
                 update_text_or_null (brochure old) (brochure d),
                 update_text_or_null (image' old) (image' d),
                 update_text_or_null (model3d old) (model3d d),
                 update_integer (availableApartments old) (availableApartments d),
                 update_text (status old) (status d)) of
             (Some n, Some l, Some b, Some im, Some m, Some a, Some st) \<Rightarrow>
               (let p = old\<lparr> name := n, location := l, brochure := b, image' := im,
                              model3d := m, availableApartments := a, status := st,
                              updatedAt := now e \<rparr>
                in Inr (p, map (\<lambda>r. if id' r = i then p else r) s))
           | _ \<Rightarrow> Inl ''Invalid value in data''))"

text \<open>Modelled from the spec: delete({id}) removes the record; it fails when there is none.\<close>

definition prisma_delete :: "ident \<Rightarrow> db \<Rightarrow> string + db" where
  "prisma_delete i s =
     (case find (\<lambda>p. id' p = i) s of
        None \<Rightarrow> Inl ''Record to delete does not exist.''
      | Some old \<Rightarrow> Inr (filter (\<lambda>r. id' r \<noteq> i) s))"

text \<open>Modelled from the spec: the six calls together, as the client of the handlers.\<close>

definition prisma :: "env \<Rightarrow> db client" where
  "prisma e =
     \<lparr> property_create = prisma_create e,
       property_count = prisma_count,
       property_findMany = prisma_findMany,
       property_findUnique = prisma_findUnique,
       property_update = prisma_update e,
       property_delete = prisma_delete \<rparr>"

section \<open>Requests in sequence\<close>








text \<open>
  The spec's words for a page of the list: the records newest first, the first
  \<open>(p - 1) * l\<close> skipped, at most \<open>l\<close> taken.
\<close>

definition spec_page :: "int \<Rightarrow> int \<Rightarrow> db \<Rightarrow> property list" where
  "spec_page p l s = take (nat l) (drop (nat ((p - 1) * l)) (rev (sort_key createdAt s)))"

section \<open>Example data\<close>

text \<open>Concrete requests, draws and stores, at which the theorems below are instantiated.\<close>

definition body_XY :: property_data where
  "body_XY =
     \<lparr> name = JStr ''X'', location = JStr ''Y'', brochure = JUndefined, image' = JUndefined,
       model3d = JUndefined, availableApartments = JUndefined, status = JUndefined \<rparr>"


definition body_zero :: property_data where
  "body_zero =
     \<lparr> name = JStr [], location = JUndefined, brochure = JStr [], image' = JUndefined,
       model3d = JNull, availableApartments = JNum 0, status = JNull \<rparr>"

definition query_negative :: list_query where
  "query_negative = \<lparr> page = Some ''-5'', limit = Some ''-1'' \<rparr>"

definition query_last :: list_query where
  "query_last = \<lparr> page = None, limit = Some ''-1'' \<rparr>"

definition query_second :: list_query where
  "query_second = \<lparr> page = Some '' 2nd'', limit = Some ''0x1'' \<rparr>"

definition query_junk :: list_query where
  "query_junk = \<lparr> page = Some ''abc'', limit = Some ''0'' \<rparr>"

definition query_page2 :: list_query where
  "query_page2 = \<lparr> page = Some ''2'', limit = Some ''1'' \<rparr>"



definition env_a :: env where
  "env_a = \<lparr> uuid = ''a'', now = 5 \<rparr>"

definition env_b :: env where
  "env_b = \<lparr> uuid = ''b'', now = 7 \<rparr>"

definition property_a :: property where
  "property_a =
     \<lparr> name = JStr ''X'', location = JStr ''Y'', brochure = JStr ''b.pdf'', image' = JNull,
       model3d = JStr ''m.glb'', availableApartments = JNum 4, status = JStr ''available'',
       id' = ''a'', createdAt = 5, updatedAt = 5 \<rparr>"

definition property_b :: property where
  "property_b =
     \<lparr> name = JStr ''Z'', location = JStr ''W'', brochure = JNull, image' = JNull,
       model3d = JNull, availableApartments = JNum 0, status = JStr ''sold'',
       id' = ''b'', createdAt = 7, updatedAt = 7 \<rparr>"

definition db_ab :: db where
  "db_ab = [property_a, property_b]"




text \<open>A client whose database cannot be reached: every call rejects.\<close>

definition unreachable :: "db client" where
  "unreachable =
     \<lparr> property_create = (\<lambda>d s. Inl ''Can't reach database server''),
       property_count = (\<lambda>s. Inl ''Can't reach database server''),
       property_findMany = (\<lambda>ord skip tk s. Inl ''Can't reach database server''),
       property_findUnique = (\<lambda>i s. Inl ''Can't reach database server''),
       property_update = (\<lambda>i d s. Inl ''Can't reach database server''),
       property_delete = (\<lambda>i s. Inl ''Can't reach database server'') \<rparr>"

text \<open>A client that loses its connection after the first read of a request.\<close>

definition flaky :: "db client" where
  "flaky =
     \<lparr> property_create = (\<lambda>d s. Inl ''Connection lost''),
       property_count = prisma_count,
       property_findMany = (\<lambda>ord skip tk s. Inl ''Connection lost''),
       property_findUnique = prisma_findUnique,
       property_update = (\<lambda>i d s. Inl ''Connection lost''),
       property_delete = (\<lambda>i s. Inl ''Connection lost'') \<rparr>"

section \<open>Properties of the handlers\<close>

subsection \<open>Evaluating the clients\<close>

lemma prisma_sel [simp]:
  "property_create (prisma e) = prisma_create e"
  "property_count (prisma e) = prisma_count"
  "property_findMany (prisma e) = prisma_findMany"
  "property_findUnique (prisma e) = prisma_findUnique"
  "property_update (prisma e) = prisma_update e"
  "property_delete (prisma e) = prisma_delete"
  by (simp_all add: prisma_def)

lemmas client_eval =
  prisma_create_def prisma_count_def prisma_findMany_def prisma_findUnique_def
  prisma_update_def prisma_delete_def valid_data_def is_text_def is_text_or_null_def
  is_integer_def ordered_by_createdAt_def update_text_def update_text_or_null_def
  update_integer_def operand_integer_def operand_def Let_def

lemma create_data_XY:
  "create_data body_XY
     = \<lparr> name = JStr ''X'', location = JStr ''Y'', brochure = JNull, image' = JNull,
         model3d = JNull, availableApartments = JNum 0, status = JStr ''available'' \<rparr>"
  by (simp add: create_data_def js_or_def body_XY_def)

lemma prisma_create_XY:
  "prisma_create env_a
     \<lparr> name = JStr ''X'', location = JStr ''Y'', brochure = JNull, image' = JNull,
       model3d = JNull, availableApartments = JNum 0, status = JStr ''available'' \<rparr> []
   = Inr (\<lparr> name = JStr ''X'', location = JStr ''Y'', brochure = JNull, image' = JNull,
            model3d = JNull, availableApartments = JNum 0, status = JStr ''available'',
            id' = ''a'', createdAt = 5, updatedAt = 5 \<rparr>,
          [\<lparr> name = JStr ''X'', location = JStr ''Y'', brochure = JNull, image' = JNull,
             model3d = JNull, availableApartments = JNum 0, status = JStr ''available'',
             id' = ''a'', createdAt = 5, updatedAt = 5 \<rparr>])"
  by (simp add: client_eval env_a_def)

lemma router_post_XY:
  "router_post (prisma env_a) body_XY []
     = ((201, MessageProperty ''Property created successfully''
          \<lparr> name = JStr ''X'', location = JStr ''Y'', brochure = JNull, image' = JNull,
            model3d = JNull, availableApartments = JNum 0, status = JStr ''available'',
            id' = ''a'', createdAt = 5, updatedAt = 5 \<rparr>),
        [\<lparr> name = JStr ''X'', location = JStr ''Y'', brochure = JNull, image' = JNull,
            model3d = JNull, availableApartments = JNum 0, status = JStr ''available'',
            id' = ''a'', createdAt = 5, updatedAt = 5 \<rparr>])"
  by (simp add: router_post_def router_post_try_def create_data_XY prisma_create_XY)
    (simp add: body_XY_def)

lemma unreachable_sel [simp]:
  "property_create unreachable d s = Inl ''Can't reach database server''"
  "property_count unreachable s = Inl ''Can't reach database server''"
  "property_findUnique unreachable i s = Inl ''Can't reach database server''"
  by (simp_all add: unreachable_def)

lemma flaky_sel [simp]:
  "property_count flaky = prisma_count"
  "property_findMany flaky ord skip tk s = Inl ''Connection lost''"
  "property_findUnique flaky = prisma_findUnique"
  "property_update flaky i d s = Inl ''Connection lost''"
  "property_delete flaky i s = Inl ''Connection lost''"
  by (simp_all add: flaky_def)

subsection \<open>The handlers on their success paths\<close>

lemma router_put_id_found:
  "property_findUnique c i s = Inr (Some existing) \<Longrightarrow>
   router_put_id c i b s
     = (case property_update c i (update_data b existing) s of
          Inl err \<Rightarrow> ((500, MessageError ''Server error during property update'' err), s)
        | Inr (p, s') \<Rightarrow> ((200, MessageProperty ''Property updated successfully'' p), s'))"
  by (simp add: router_put_id_def router_put_id_try_def split: sum.splits prod.splits)

subsection \<open>parseInt on text without a number\<close>

lemmas parseInt_eval =
  parseInt_param_def parseInt_def is_white_space_def is_digit_of_def digit_value_def
  digits_to_int_def num_or_def resolve_page_def resolve_limit_def

lemma parseInt_undefined: "parseInt ''undefined'' = None"
  by (simp add: parseInt_eval)

lemma parseInt_not_numeric:
  assumes "dropWhile is_white_space str = ch # rest"
    and "\<not> is_digit_of 10 ch" and "ch \<noteq> CHR ''+''" and "ch \<noteq> CHR ''-''"
  shows "parseInt str = None"
proof -
  have "ch \<noteq> CHR ''0''"
    using assms(2) by (auto simp: is_digit_of_def digit_value_def)
  then show ?thesis
    using assms by (simp add: parseInt_def Let_def)
qed

subsection \<open>What a successful write of the in-memory client leaves\<close>

lemma prisma_create_Inr:
  assumes "prisma_create e d s = Inr (p, s')"
  shows "valid_data d \<and> uuid e \<notin> set (map id' s) \<and> s' = s @ [p]
    \<and> id' p = uuid e \<and> createdAt p = now e \<and> updatedAt p = now e
    \<and> name p = name d \<and> location p = location d \<and> brochure p = brochure d
    \<and> image' p = image' d \<and> model3d p = model3d d
    \<and> availableApartments p = availableApartments d \<and> status p = status d"
  using assms
  by (auto simp: prisma_create_def Let_def split: if_splits)



lemma prisma_delete_Inr:
  assumes "prisma_delete i s = Inr s'"
  shows "s' = filter (\<lambda>r. id' r \<noteq> i) s"
  using assms
  by (auto simp: prisma_delete_def split: option.splits)

subsection \<open>Handlers that keep names and locations non-empty\<close>











subsection \<open>A created record is found again\<close>

lemma router_post_created:
  assumes "router_post c b s = ((201, body), s')"
  shows "\<exists>p. property_create c (create_data b) s = Inr (p, s')
    \<and> body = MessageProperty ''Property created successfully'' p
    \<and> truthy (name b) \<and> truthy (location b)"
  using assms
  by (auto simp: router_post_def router_post_try_def split: if_splits sum.splits prod.splits)

lemma find_fresh_append:
  assumes "i \<notin> set (map id' s)" and "id' p = i"
  shows "find (\<lambda>r. id' r = i) (s @ [p]) = Some p"
  using assms by (induction s) auto



subsection \<open>Pages of the list\<close>

lemma router_get_listing:
  assumes "property_count c s = Inr n"
    and "property_findMany c Desc ((resolve_page q - 1) * resolve_limit q) (resolve_limit q) s
           = Inr ps"
  shows "router_get c q s
     = ((200, Listing ps
          \<lparr> currentPage = resolve_page q,
            totalPages = \<lceil>real n / real_of_int (resolve_limit q)\<rceil>,
            totalItems = int n,
            itemsPerPage = resolve_limit q,
            hasNextPage = (resolve_page q < \<lceil>real n / real_of_int (resolve_limit q)\<rceil>),
            hasPrevPage = (1 < resolve_page q) \<rparr>), s)"
  using assms by (simp add: router_get_def router_get_try_def math_ceil_div_def Let_def)

lemma sorted_desc: "sorted_wrt (\<lambda>a b. createdAt b \<le> createdAt a) (rev (sort_key createdAt s))"
proof -
  have "sorted (map createdAt (sort_key createdAt s))"
    by (rule sorted_sort_key)
  then have "sorted_wrt (\<lambda>a b. createdAt a \<le> createdAt b) (sort_key createdAt s)"
    by (simp add: sorted_wrt_map)
  then show ?thesis
    by (simp add: sorted_wrt_rev)
qed

lemma spec_page_props:
  "length (spec_page p l s) \<le> nat l"
  "sorted_wrt (\<lambda>a b. createdAt b \<le> createdAt a) (spec_page p l s)"
  "set (spec_page p l s) \<subseteq> set s"
proof -
  show "length (spec_page p l s) \<le> nat l"
    by (simp add: spec_page_def)
  show "sorted_wrt (\<lambda>a b. createdAt b \<le> createdAt a) (spec_page p l s)"
    unfolding spec_page_def by (intro sorted_wrt_take sorted_wrt_drop sorted_desc)
  have "set (spec_page p l s) \<subseteq> set (rev (sort_key createdAt s))"
    unfolding spec_page_def by (meson set_take_subset set_drop_subset subset_trans)
  then show "set (spec_page p l s) \<subseteq> set s"
    by simp
qed

lemma prisma_findMany_page:
  assumes "1 \<le> p" and "1 \<le> l"
  shows "prisma_findMany Desc ((p - 1) * l) l s = Inr (spec_page p l s)"
proof -
  have "0 \<le> (p - 1) * l"
    using assms by (intro mult_nonneg_nonneg) simp_all
  then have "\<not> (p - 1) * l < 0"
    by linarith
  moreover have "0 \<le> l"
    using assms by simp
  ultimately show ?thesis
    by (simp add: prisma_findMany_def ordered_by_createdAt_def spec_page_def)
qed

lemma spec_page_ab: "spec_page 2 1 db_ab = [property_a]"
  by (simp add: spec_page_def db_ab_def property_a_def property_b_def)

lemma resolve_query_page2: "resolve_page query_page2 = 2" "resolve_limit query_page2 = 1"
  by (simp_all add: parseInt_eval query_page2_def)

lemma resolve_query_last: "resolve_page query_last = 1" "resolve_limit query_last = - 1"
  by (simp_all add: parseInt_eval query_last_def)

lemma findMany_last: "prisma_findMany Desc 0 (- 1) db_ab = Inr [property_a]"
  by (simp add: prisma_findMany_def ordered_by_createdAt_def db_ab_def property_a_def
      property_b_def)

subsection \<open>Validation on create\<close>

text \<open>
  C4. For every create request in which \<open>name\<close> or \<open>location\<close> is missing or empty
  (falsy), the create operation answers HTTP 400 with the message
  "Name and location are required" and persists nothing: whatever the persistence client
  is, the store after the request is the store before it.
\<close>

theorem router_post_validation:
  "\<not> truthy (name b) \<or> \<not> truthy (location b) \<Longrightarrow>
   router_post c b s = ((400, Message ''Name and location are required''), s)"
  by (simp add: router_post_def router_post_try_def)

theorem router_post_validation_witness:
  "\<not> truthy (name body_zero) \<and>
   router_post (prisma env_a) body_zero db_ab
     = ((400, Message ''Name and location are required''), db_ab) \<and>
   router_post unreachable (body_XY\<lparr>location := JNull\<rparr>) []
     = ((400, Message ''Name and location are required''), [])"
proof -
  have 1: "\<not> truthy (name body_zero)"
    by (simp add: body_zero_def)
  have 2: "\<not> truthy (location (body_XY\<lparr>location := JNull\<rparr>))"
    by simp
  show ?thesis
    using 1 2 router_post_validation [of body_zero "prisma env_a" db_ab]
      router_post_validation [of "body_XY\<lparr>location := JNull\<rparr>" unreachable "[]"]
    by blast
qed

subsection \<open>Unknown identifiers\<close>

text \<open>
  C6. For every id with no record in the store (the lookup yields null), get-by-id,
  update and delete all answer HTTP 404 with the message "Property not found", and the
  store is unchanged.
\<close>

theorem unknown_id_not_found:
  "property_findUnique c i s = Inr None \<Longrightarrow>
   router_get_id c i s = ((404, Message ''Property not found''), s) \<and>
   router_put_id c i b s = ((404, Message ''Property not found''), s) \<and>
   router_delete_id c i s = ((404, Message ''Property not found''), s)"
  by (simp add: router_get_id_def router_get_id_try_def router_put_id_def router_put_id_try_def
      router_delete_id_def router_delete_id_try_def)

theorem unknown_id_not_found_witness:
  "property_findUnique (prisma env_a) ''c'' db_ab = Inr None \<and>
   router_get_id (prisma env_a) ''c'' db_ab = ((404, Message ''Property not found''), db_ab) \<and>
   router_put_id (prisma env_a) ''c'' body_XY db_ab
     = ((404, Message ''Property not found''), db_ab) \<and>
   router_delete_id (prisma env_a) ''c'' db_ab
     = ((404, Message ''Property not found''), db_ab)"
proof -
  have 1: "property_findUnique (prisma env_a) ''c'' db_ab = Inr None"
    by (simp add: prisma_findUnique_def db_ab_def property_a_def property_b_def)
  show ?thesis
    using 1 unknown_id_not_found [OF 1] by blast
qed

subsection \<open>Defaults on create\<close>

text \<open>
  C3. Creating a property with only \<open>name\<close> and \<open>location\<close> supplied, both non-empty
  text, hands the persistence client a record whose \<open>brochure\<close>, \<open>image\<close> and
  \<open>model3d\<close> are null, whose \<open>availableApartments\<close> is 0 and whose \<open>status\<close> is
  "available", and answers HTTP 201 with the record that the client persisted (a
  rejection of the client is the 500 of the catch block). With the in-memory client and an
  identifier that is not in use, the answer is 201 and that very record is appended to
  the store.
\<close>

theorem create_minimal:
  assumes "n \<noteq> []" and "l \<noteq> []"
    and "b = \<lparr> name = JStr n, location = JStr l, brochure = JUndefined, image' = JUndefined,
               model3d = JUndefined, availableApartments = JUndefined, status = JUndefined \<rparr>"
  shows
    "router_post c b s
       = (case property_create c
                \<lparr> name = JStr n, location = JStr l, brochure = JNull, image' = JNull,
                  model3d = JNull, availableApartments = JNum 0,
                  status = JStr ''available'' \<rparr> s of
            Inl err \<Rightarrow> ((500, MessageError ''Server error during property creation'' err), s)
          | Inr (p, s') \<Rightarrow> ((201, MessageProperty ''Property created successfully'' p), s'))
     \<and> (uuid e \<notin> set (map id' t) \<longrightarrow>
          router_post (prisma e) b t
            = ((201, MessageProperty ''Property created successfully''
                  \<lparr> name = JStr n, location = JStr l, brochure = JNull, image' = JNull,
                    model3d = JNull, availableApartments = JNum 0,
                    status = JStr ''available'',
                    id' = uuid e, createdAt = now e, updatedAt = now e \<rparr>),
               t @ [\<lparr> name = JStr n, location = JStr l, brochure = JNull, image' = JNull,
                     model3d = JNull, availableApartments = JNum 0,
                     status = JStr ''available'',
                     id' = uuid e, createdAt = now e, updatedAt = now e \<rparr>]))"
proof -
  have d: "create_data b
     = \<lparr> name = JStr n, location = JStr l, brochure = JNull, image' = JNull,
         model3d = JNull, availableApartments = JNum 0, status = JStr ''available'' \<rparr>"
    using assms by (simp add: create_data_def js_or_def)
  have g: "truthy (name b)" "truthy (location b)"
    using assms by simp_all
  have 1: "router_post c b s
       = (case property_create c (create_data b) s of
            Inl err \<Rightarrow> ((500, MessageError ''Server error during property creation'' err), s)
          | Inr (p, s') \<Rightarrow> ((201, MessageProperty ''Property created successfully'' p), s'))"
    for c :: "'x client" and s
    using g by (simp add: router_post_def router_post_try_def split: sum.splits prod.splits)
  have 2: "uuid e \<notin> set (map id' t) \<Longrightarrow>
     prisma_create e (create_data b) t
       = Inr (\<lparr> name = JStr n, location = JStr l, brochure = JNull, image' = JNull,
                    model3d = JNull, availableApartments = JNum 0,
                    status = JStr ''available'',
                    id' = uuid e, createdAt = now e, updatedAt = now e \<rparr>,
               t @ [\<lparr> name = JStr n, location = JStr l, brochure = JNull, image' = JNull,
                     model3d = JNull, availableApartments = JNum 0,
                     status = JStr ''available'',
                     id' = uuid e, createdAt = now e, updatedAt = now e \<rparr>])"
    unfolding d by (simp add: client_eval)
  show ?thesis
    using 1 [of c s] 1 [of "prisma e" t] 2 unfolding d by simp
qed

theorem create_minimal_witness:
  "router_post (prisma env_b) body_XY [property_a]
     = ((201, MessageProperty ''Property created successfully''
          \<lparr> name = JStr ''X'', location = JStr ''Y'', brochure = JNull, image' = JNull,
            model3d = JNull, availableApartments = JNum 0, status = JStr ''available'',
            id' = ''b'', createdAt = 7, updatedAt = 7 \<rparr>),
        [property_a,
          \<lparr> name = JStr ''X'', location = JStr ''Y'', brochure = JNull, image' = JNull,
            model3d = JNull, availableApartments = JNum 0, status = JStr ''available'',
            id' = ''b'', createdAt = 7, updatedAt = 7 \<rparr>])"
proof -
  have u: "uuid env_b \<notin> set (map id' [property_a])"
    by (simp add: env_b_def property_a_def)
  have "uuid env_b \<notin> set (map id' [property_a]) \<longrightarrow>
          router_post (prisma env_b) body_XY [property_a]
            = ((201, MessageProperty ''Property created successfully''
                  \<lparr> name = JStr ''X'', location = JStr ''Y'', brochure = JNull, image' = JNull,
                    model3d = JNull, availableApartments = JNum 0,
                    status = JStr ''available'',
                    id' = uuid env_b, createdAt = now env_b, updatedAt = now env_b \<rparr>),
               [property_a] @ [\<lparr> name = JStr ''X'', location = JStr ''Y'', brochure = JNull, image' = JNull,
                     model3d = JNull, availableApartments = JNum 0,
                     status = JStr ''available'',
                     id' = uuid env_b, createdAt = now env_b, updatedAt = now env_b \<rparr>])"
    by (rule conjunct2 [OF create_minimal [of "''X''" "''Y''" body_XY "prisma env_b" "[]" env_b "[property_a]"]])
      (simp_all add: body_XY_def)
  with u show ?thesis
    by (simp add: env_b_def)
qed



subsection \<open>The merge on update\<close>

text \<open>
  C1. For the update of an existing id the field-level merge is asymmetric. The handler
  hands the persistence client a record in which \<open>name\<close>, \<open>location\<close> and \<open>status\<close>
  are the supplied value when it is truthy and the stored value otherwise (a falsy
  supplied value keeps the stored one), while \<open>brochure\<close>, \<open>image\<close>, \<open>model3d\<close>
  and \<open>availableApartments\<close> are the supplied value whenever it is present, falsy or
  not, and the stored value only when the field is absent; in particular
  \<open>availableApartments = 0\<close> sets the count to 0.
\<close>

theorem update_merge_asymmetric:
  assumes "property_findUnique c i s = Inr (Some existing)"
  shows
    "router_put_id c i b s
       = (case property_update c i (update_data b existing) s of
            Inl err \<Rightarrow> ((500, MessageError ''Server error during property update'' err), s)
          | Inr (p, s') \<Rightarrow> ((200, MessageProperty ''Property updated successfully'' p), s'))
     \<and> name (update_data b existing) = (if truthy (name b) then name b else name existing)
     \<and> location (update_data b existing)
         = (if truthy (location b) then location b else location existing)
     \<and> status (update_data b existing)
         = (if truthy (status b) then status b else status existing)
     \<and> brochure (update_data b existing)
         = (if brochure b = JUndefined then brochure existing else brochure b)
     \<and> image' (update_data b existing)
         = (if image' b = JUndefined then image' existing else image' b)
     \<and> model3d (update_data b existing)
         = (if model3d b = JUndefined then model3d existing else model3d b)
     \<and> availableApartments (update_data b existing)
         = (if availableApartments b = JUndefined then availableApartments existing
            else availableApartments b)
     \<and> (availableApartments b = JNum 0 \<longrightarrow>
          availableApartments (update_data b existing) = JNum 0)"
proof -
  have "name (update_data b existing) = (if truthy (name b) then name b else name existing)"
    "location (update_data b existing)
       = (if truthy (location b) then location b else location existing)"
    "status (update_data b existing)
       = (if truthy (status b) then status b else status existing)"
    "brochure (update_data b existing)
       = (if brochure b = JUndefined then brochure existing else brochure b)"
    "image' (update_data b existing)
       = (if image' b = JUndefined then image' existing else image' b)"
    "model3d (update_data b existing)
       = (if model3d b = JUndefined then model3d existing else model3d b)"
    "availableApartments (update_data b existing)
       = (if availableApartments b = JUndefined then availableApartments existing
          else availableApartments b)"
    "availableApartments b = JNum 0 \<longrightarrow>
       availableApartments (update_data b existing) = JNum 0"
    by (simp_all add: update_data_def js_or_def js_present_or_def)
  with router_put_id_found [OF assms] show ?thesis
    by blast
qed

theorem update_merge_asymmetric_witness:
  "property_findUnique (prisma env_b) ''a'' db_ab = Inr (Some property_a)
   \<and> router_put_id (prisma env_b) ''a'' body_zero db_ab
     = ((200, MessageProperty ''Property updated successfully''
          \<lparr> name = JStr ''X'', location = JStr ''Y'', brochure = JStr [], image' = JNull,
            model3d = JNull, availableApartments = JNum 0, status = JStr ''available'',
            id' = ''a'', createdAt = 5, updatedAt = 7 \<rparr>),
        [\<lparr> name = JStr ''X'', location = JStr ''Y'', brochure = JStr [], image' = JNull,
            model3d = JNull, availableApartments = JNum 0, status = JStr ''available'',
            id' = ''a'', createdAt = 5, updatedAt = 7 \<rparr>, property_b])"
proof -
  have f: "property_findUnique (prisma env_b) ''a'' db_ab = Inr (Some property_a)"
    by (simp add: prisma_findUnique_def db_ab_def property_a_def)
  have d: "update_data body_zero property_a
     = \<lparr> name = JStr ''X'', location = JStr ''Y'', brochure = JStr [], image' = JNull,
         model3d = JNull, availableApartments = JNum 0, status = JStr ''available'' \<rparr>"
    by (simp add: update_data_def js_or_def js_present_or_def body_zero_def property_a_def)
  have u: "property_update (prisma env_b) ''a''
      \<lparr> name = JStr ''X'', location = JStr ''Y'', brochure = JStr [], image' = JNull,
        model3d = JNull, availableApartments = JNum 0, status = JStr ''available'' \<rparr> db_ab
     = Inr (\<lparr> name = JStr ''X'', location = JStr ''Y'', brochure = JStr [], image' = JNull,
              model3d = JNull, availableApartments = JNum 0, status = JStr ''available'',
              id' = ''a'', createdAt = 5, updatedAt = 7 \<rparr>,
            [\<lparr> name = JStr ''X'', location = JStr ''Y'', brochure = JStr [], image' = JNull,
               model3d = JNull, availableApartments = JNum 0, status = JStr ''available'',
               id' = ''a'', createdAt = 5, updatedAt = 7 \<rparr>, property_b])"
    by (simp add: client_eval db_ab_def property_a_def property_b_def env_b_def)
  have "router_put_id (prisma env_b) ''a'' body_zero db_ab
      = (case property_update (prisma env_b) ''a'' (update_data body_zero property_a) db_ab of
           Inl err \<Rightarrow>
             ((500, MessageError ''Server error during property update'' err), db_ab)
         | Inr (p, s') \<Rightarrow> ((200, MessageProperty ''Property updated successfully'' p), s'))"
    using update_merge_asymmetric [OF f, of body_zero] by (rule conjunct1)
  also have "\<dots> = ((200, MessageProperty ''Property updated successfully''
          \<lparr> name = JStr ''X'', location = JStr ''Y'', brochure = JStr [], image' = JNull,
            model3d = JNull, availableApartments = JNum 0, status = JStr ''available'',
            id' = ''a'', createdAt = 5, updatedAt = 7 \<rparr>),
        [\<lparr> name = JStr ''X'', location = JStr ''Y'', brochure = JStr [], image' = JNull,
            model3d = JNull, availableApartments = JNum 0, status = JStr ''available'',
            id' = ''a'', createdAt = 5, updatedAt = 7 \<rparr>, property_b])"
    unfolding d u by (simp only: sum.case prod.case)
  finally show ?thesis
    using f by (rule_tac conjI)
qed

subsection \<open>Persistence failures\<close>

text \<open>
  C9. For every operation, when a call of the persistence client rejects with an Error,
  the catch block of the handler takes it: the answer is HTTP 500 with the handler's
  generic server-error message and the message text of the Error, and the store is as
  before. This holds for each of the calls a handler makes (the count and the query of
  the list, the lookup and the write of update and delete).
\<close>

theorem persistence_failure_500:
  "(truthy (name b) \<and> truthy (location b) \<and> property_create c (create_data b) s = Inl err \<longrightarrow>
      router_post c b s = ((500, MessageError ''Server error during property creation'' err), s))
   \<and> (property_count c s = Inl err \<longrightarrow>
      router_get c q s = ((500, MessageError ''Server error'' err), s))
   \<and> (property_count c s = Inr n
        \<and> property_findMany c Desc ((resolve_page q - 1) * resolve_limit q) (resolve_limit q) s
            = Inl err \<longrightarrow>
      router_get c q s = ((500, MessageError ''Server error'' err), s))
   \<and> (property_findUnique c i s = Inl err \<longrightarrow>
      router_get_id c i s = ((500, MessageError ''Server error'' err), s)
      \<and> router_put_id c i b s
          = ((500, MessageError ''Server error during property update'' err), s)
      \<and> router_delete_id c i s
          = ((500, MessageError ''Server error during property deletion'' err), s))
   \<and> (property_findUnique c i s = Inr (Some x)
        \<and> property_update c i (update_data b x) s = Inl err \<longrightarrow>
      router_put_id c i b s
        = ((500, MessageError ''Server error during property update'' err), s))
   \<and> (property_findUnique c i s = Inr (Some x) \<and> property_delete c i s = Inl err \<longrightarrow>
      router_delete_id c i s
        = ((500, MessageError ''Server error during property deletion'' err), s))"
  by (simp add: router_post_def router_post_try_def router_get_def router_get_try_def
      router_get_id_def router_get_id_try_def router_put_id_def router_put_id_try_def
      router_delete_id_def router_delete_id_try_def Let_def)

theorem persistence_failure_500_witness:
  "router_post unreachable body_XY db_ab
     = ((500, MessageError ''Server error during property creation''
               ''Can't reach database server''), db_ab)
   \<and> router_get unreachable \<lparr> page = None, limit = None \<rparr> db_ab
     = ((500, MessageError ''Server error'' ''Can't reach database server''), db_ab)
   \<and> router_get flaky \<lparr> page = None, limit = None \<rparr> db_ab
     = ((500, MessageError ''Server error'' ''Connection lost''), db_ab)
   \<and> router_get_id unreachable ''a'' db_ab
     = ((500, MessageError ''Server error'' ''Can't reach database server''), db_ab)
   \<and> router_put_id flaky ''a'' body_zero db_ab
     = ((500, MessageError ''Server error during property update'' ''Connection lost''), db_ab)
   \<and> router_delete_id flaky ''a'' db_ab
     = ((500, MessageError ''Server error during property deletion'' ''Connection lost''),
        db_ab)"
proof -
  let ?q = "\<lparr> page = None, limit = None \<rparr>"
  have t: "truthy (name body_XY) \<and> truthy (location body_XY)"
    by (simp add: body_XY_def)
  have f: "property_findUnique flaky ''a'' db_ab = Inr (Some property_a)"
    by (simp add: prisma_findUnique_def db_ab_def property_a_def)
  have n: "property_count flaky db_ab = Inr 2"
    by (simp add: prisma_count_def db_ab_def)
  note u = persistence_failure_500
    [of body_XY unreachable db_ab "''Can't reach database server''" ?q 0 "''a''" property_a]
  note k = persistence_failure_500
    [of body_zero flaky db_ab "''Connection lost''" ?q 2 "''a''" property_a]
  from u t have 1: "router_post unreachable body_XY db_ab
     = ((500, MessageError ''Server error during property creation''
               ''Can't reach database server''), db_ab)"
    by simp
  from u have 2: "router_get unreachable ?q db_ab
     = ((500, MessageError ''Server error'' ''Can't reach database server''), db_ab)"
    by simp
  from u have 4: "router_get_id unreachable ''a'' db_ab
     = ((500, MessageError ''Server error'' ''Can't reach database server''), db_ab)"
    by simp
  from k n have 3: "router_get flaky ?q db_ab
     = ((500, MessageError ''Server error'' ''Connection lost''), db_ab)"
    by simp
  from k f have 5: "router_put_id flaky ''a'' body_zero db_ab
     = ((500, MessageError ''Server error during property update'' ''Connection lost''), db_ab)"
    by simp
  from k f have 6: "router_delete_id flaky ''a'' db_ab
     = ((500, MessageError ''Server error during property deletion'' ''Connection lost''),
        db_ab)"
    by simp
  from 1 2 3 4 5 6 show ?thesis
    by blast
qed

subsection \<open>Page and limit\<close>

text \<open>
  The query \<^verbatim>\<open>?page=-5&limit=-1\<close>: both parameters parse to a negative integer,
  which is truthy, so \<^verbatim>\<open>parseInt(...) || 1\<close> and \<^verbatim>\<open>parseInt(...) || 10\<close> keep
  it; neither falls back to its default.
\<close>

theorem resolve_counterexample:
  "parseInt_param (page query_negative) = Some (- 5)
   \<and> resolve_page query_negative = - 5 \<and> resolve_page query_negative \<noteq> 1
   \<and> parseInt_param (limit query_negative) = Some (- 1)
   \<and> resolve_limit query_negative = - 1 \<and> resolve_limit query_negative \<noteq> 10"
  by (simp add: parseInt_eval query_negative_def)

text \<open>
  C5, amended. For every list request, \<open>page\<close> and \<open>limit\<close> are coerced with
  \<^verbatim>\<open>parseInt\<close> and fall back to 1 and 10 exactly when the parse result is falsy: NaN
  (the parameter is absent, or its text does not start, after white space and a sign,
  with a decimal digit) or zero. Every other parse result, a negative integer included,
  is the resolved value.
\<close>

theorem resolve_fallback:
  "(parseInt_param (page q) = None \<or> parseInt_param (page q) = Some 0 \<longrightarrow> resolve_page q = 1)
   \<and> (parseInt_param (limit q) = None \<or> parseInt_param (limit q) = Some 0 \<longrightarrow>
        resolve_limit q = 10)
   \<and> (\<forall>k. parseInt_param (page q) = Some k \<and> k \<noteq> 0 \<longrightarrow> resolve_page q = k)
   \<and> (\<forall>k. parseInt_param (limit q) = Some k \<and> k \<noteq> 0 \<longrightarrow> resolve_limit q = k)
   \<and> (page q = None \<longrightarrow> resolve_page q = 1)
   \<and> (limit q = None \<longrightarrow> resolve_limit q = 10)
   \<and> (\<forall>str ch rest. page q = Some str \<and> dropWhile is_white_space str = ch # rest
         \<and> \<not> is_digit_of 10 ch \<and> ch \<noteq> CHR ''+'' \<and> ch \<noteq> CHR ''-'' \<longrightarrow> resolve_page q = 1)
   \<and> (\<forall>str ch rest. limit q = Some str \<and> dropWhile is_white_space str = ch # rest
         \<and> \<not> is_digit_of 10 ch \<and> ch \<noteq> CHR ''+'' \<and> ch \<noteq> CHR ''-'' \<longrightarrow> resolve_limit q = 10)"
proof -
  have a: "v = None \<Longrightarrow> parseInt_param v = None" for v
    by (simp add: parseInt_param_def parseInt_undefined)
  have b: "dropWhile is_white_space str = ch # rest \<Longrightarrow>
      \<not> is_digit_of 10 ch \<Longrightarrow> ch \<noteq> CHR ''+'' \<Longrightarrow> ch \<noteq> CHR ''-'' \<Longrightarrow>
      parseInt_param (Some str) = None"
    for str ch rest
    by (simp add: parseInt_param_def parseInt_not_numeric)
  show ?thesis
    unfolding resolve_page_def resolve_limit_def
    by (auto simp: num_or_def a b)
qed

theorem resolve_fallback_witness:
  "resolve_page query_junk = 1 \<and> resolve_limit query_junk = 10
   \<and> resolve_page query_second = 2 \<and> resolve_limit query_second = 1
   \<and> resolve_page query_last = 1 \<and> resolve_limit query_last = - 1"
proof -
  have 1: "dropWhile is_white_space ''abc'' = CHR ''a'' # ''bc''"
    "\<not> is_digit_of 10 (CHR ''a'')" "CHR ''a'' \<noteq> CHR ''+''" "CHR ''a'' \<noteq> CHR ''-''"
    by (simp_all add: is_white_space_def is_digit_of_def digit_value_def)
  have 2: "parseInt_param (limit query_junk) = Some 0"
    "parseInt_param (page query_second) = Some 2"
    "parseInt_param (limit query_second) = Some 1"
    "parseInt_param (limit query_last) = Some (- 1)"
    by (simp_all add: parseInt_eval query_junk_def query_second_def query_last_def)
  have 3: "page query_junk = Some ''abc''" "page query_last = None"
    by (simp_all add: query_junk_def query_last_def)
  have 4: "(2::int) \<noteq> 0" "(1::int) \<noteq> 0" "(- 1::int) \<noteq> 0"
    by simp_all
  have "resolve_page query_junk = 1"
    using resolve_fallback [of query_junk] 1 3 by blast
  moreover have "resolve_limit query_junk = 10"
    using resolve_fallback [of query_junk] 2 by blast
  moreover have "resolve_page query_second = 2"
    using resolve_fallback [of query_second] 2 4 by blast
  moreover have "resolve_limit query_second = 1"
    using resolve_fallback [of query_second] 2 4 by blast
  moreover have "resolve_page query_last = 1"
    using resolve_fallback [of query_last] 3 by blast
  moreover have "resolve_limit query_last = - 1"
    using resolve_fallback [of query_last] 2 4 by blast
  ultimately show ?thesis
    by blast
qed

subsection \<open>Create, then get\<close>

text \<open>
  C8. Round trip: after every successful create (the answer is 201), a get-by-id with the
  id of the created record, on the store that the create left, answers 200 with the very
  record of the create response: every field is equal, the two timestamps included, and
  both timestamps are the time of the creation.
\<close>

theorem create_then_get:
  assumes "router_post (prisma e) b s = ((201, body), s')"
  shows "\<exists>p. body = MessageProperty ''Property created successfully'' p
    \<and> router_get_id (prisma e') (id' p) s' = ((200, PropertyOnly p), s')
    \<and> createdAt p = now e \<and> updatedAt p = now e"
proof -
  from router_post_created [OF assms] obtain p where
    c: "prisma_create e (create_data b) s = Inr (p, s')"
    and m: "body = MessageProperty ''Property created successfully'' p"
    by auto
  from prisma_create_Inr [OF c] have
    f: "uuid e \<notin> set (map id' s)" "s' = s @ [p]" "id' p = uuid e"
    and t: "createdAt p = now e" "updatedAt p = now e"
    by simp_all
  have "prisma_findUnique (id' p) s' = Inr (Some p)"
    using f by (simp add: prisma_findUnique_def find_fresh_append)
  then have "router_get_id (prisma e') (id' p) s' = ((200, PropertyOnly p), s')"
    by (simp add: router_get_id_def router_get_id_try_def)
  with m t show ?thesis
    by blast
qed

theorem create_then_get_witness:
  "router_post (prisma env_a) body_XY []
     = ((201, MessageProperty ''Property created successfully''
          \<lparr> name = JStr ''X'', location = JStr ''Y'', brochure = JNull, image' = JNull,
            model3d = JNull, availableApartments = JNum 0, status = JStr ''available'',
            id' = ''a'', createdAt = 5, updatedAt = 5 \<rparr>),
        [\<lparr> name = JStr ''X'', location = JStr ''Y'', brochure = JNull, image' = JNull,
            model3d = JNull, availableApartments = JNum 0, status = JStr ''available'',
            id' = ''a'', createdAt = 5, updatedAt = 5 \<rparr>])
   \<and> router_get_id (prisma env_b) ''a''
        [\<lparr> name = JStr ''X'', location = JStr ''Y'', brochure = JNull, image' = JNull,
            model3d = JNull, availableApartments = JNum 0, status = JStr ''available'',
            id' = ''a'', createdAt = 5, updatedAt = 5 \<rparr>]
     = ((200, PropertyOnly
          \<lparr> name = JStr ''X'', location = JStr ''Y'', brochure = JNull, image' = JNull,
            model3d = JNull, availableApartments = JNum 0, status = JStr ''available'',
            id' = ''a'', createdAt = 5, updatedAt = 5 \<rparr>),
        [\<lparr> name = JStr ''X'', location = JStr ''Y'', brochure = JNull, image' = JNull,
            model3d = JNull, availableApartments = JNum 0, status = JStr ''available'',
            id' = ''a'', createdAt = 5, updatedAt = 5 \<rparr>])"
  using create_then_get [OF router_post_XY, of env_b] router_post_XY
  by simp

subsection \<open>Names and locations\<close>




subsection \<open>The paginated list\<close>

text \<open>
  The query \<^verbatim>\<open>?limit=-1\<close> on a store of two records: the limit resolves to \<open>-1\<close>,
  the handler passes \<^verbatim>\<open>take: -1\<close>, and the answer is 200 with one record, which is
  more than \<open>l = -1\<close> records; no list has at most \<open>-1\<close> records.
\<close>

theorem router_get_negative_limit:
  "resolve_limit query_last = - 1
   \<and> router_get (prisma env_a) query_last db_ab
     = ((200, Listing [property_a]
          \<lparr> currentPage = 1, totalPages = - 2, totalItems = 2, itemsPerPage = - 1,
            hasNextPage = False, hasPrevPage = False \<rparr>), db_ab)
   \<and> \<not> int (length [property_a]) \<le> resolve_limit query_last"
proof -
  have "router_get (prisma env_a) query_last db_ab
     = ((200, Listing [property_a]
          \<lparr> currentPage = 1, totalPages = - 2, totalItems = 2, itemsPerPage = - 1,
            hasNextPage = False, hasPrevPage = False \<rparr>), db_ab)"
    by (simp add: router_get_def router_get_try_def resolve_query_last prisma_count_def
        findMany_last math_ceil_div_def) (simp add: db_ab_def)
  then show ?thesis
    by (simp add: resolve_query_last)
qed

text \<open>
  C2, amended. For every list request whose resolved page \<open>p\<close>, limit \<open>l\<close>, offset
  \<open>(p - 1) * l\<close> and total record count \<open>n\<close> are safe integers (the range in which the
  numbers of the code are exact): when the count and the query of the persistence client
  succeed, the list operation answers 200 with the records that the client yields for
  the order \<open>createdAt\<close> descending, skip \<open>(p - 1) * l\<close> and take \<open>l\<close>, and with the
  pagination descriptor \<open>currentPage = p\<close>, \<open>totalPages = ceil(n / l)\<close>,
  \<open>totalItems = n\<close>, \<open>itemsPerPage = l\<close>, \<open>hasNextPage = (p < ceil(n / l))\<close>,
  \<open>hasPrevPage = (p > 1)\<close>. When moreover \<open>p\<close> and \<open>l\<close> are at least 1, the records are
  those of the store, newest first, with the first \<open>(p - 1) * l\<close> skipped, and there are
  at most \<open>l\<close> of them.
\<close>

theorem router_get_pagination:
  "(safe_integer (resolve_page q) \<and> safe_integer (resolve_limit q)
      \<and> safe_integer ((resolve_page q - 1) * resolve_limit q) \<and> safe_integer (int n)
      \<and> property_count c s = Inr n
      \<and> property_findMany c Desc ((resolve_page q - 1) * resolve_limit q) (resolve_limit q) s
          = Inr ps \<longrightarrow>
    router_get c q s
      = ((200, Listing ps
           \<lparr> currentPage = resolve_page q,
             totalPages = \<lceil>real n / real_of_int (resolve_limit q)\<rceil>,
             totalItems = int n,
             itemsPerPage = resolve_limit q,
             hasNextPage = (resolve_page q < \<lceil>real n / real_of_int (resolve_limit q)\<rceil>),
             hasPrevPage = (1 < resolve_page q) \<rparr>), s))
   \<and> (1 \<le> resolve_page q \<and> 1 \<le> resolve_limit q
      \<and> safe_integer (resolve_page q) \<and> safe_integer (resolve_limit q)
      \<and> safe_integer ((resolve_page q - 1) * resolve_limit q)
      \<and> safe_integer (int (length t)) \<longrightarrow>
        router_get (prisma e) q t
          = ((200, Listing (spec_page (resolve_page q) (resolve_limit q) t)
               \<lparr> currentPage = resolve_page q,
                 totalPages = \<lceil>real (length t) / real_of_int (resolve_limit q)\<rceil>,
                 totalItems = int (length t),
                 itemsPerPage = resolve_limit q,
                 hasNextPage =
                   (resolve_page q < \<lceil>real (length t) / real_of_int (resolve_limit q)\<rceil>),
                 hasPrevPage = (1 < resolve_page q) \<rparr>), t)
        \<and> int (length (spec_page (resolve_page q) (resolve_limit q) t)) \<le> resolve_limit q
        \<and> sorted_wrt (\<lambda>a b. createdAt b \<le> createdAt a)
             (spec_page (resolve_page q) (resolve_limit q) t)
        \<and> set (spec_page (resolve_page q) (resolve_limit q) t) \<subseteq> set t)"
proof -
  have g: "router_get c q s
      = ((200, Listing ps
           \<lparr> currentPage = resolve_page q,
             totalPages = \<lceil>real n / real_of_int (resolve_limit q)\<rceil>,
             totalItems = int n,
             itemsPerPage = resolve_limit q,
             hasNextPage = (resolve_page q < \<lceil>real n / real_of_int (resolve_limit q)\<rceil>),
             hasPrevPage = (1 < resolve_page q) \<rparr>), s)"
    if "property_count c s = Inr n"
      and "property_findMany c Desc ((resolve_page q - 1) * resolve_limit q)
             (resolve_limit q) s = Inr ps"
    using that by (rule router_get_listing)
  have m: "router_get (prisma e) q t
          = ((200, Listing (spec_page (resolve_page q) (resolve_limit q) t)
               \<lparr> currentPage = resolve_page q,
                 totalPages = \<lceil>real (length t) / real_of_int (resolve_limit q)\<rceil>,
                 totalItems = int (length t),
                 itemsPerPage = resolve_limit q,
                 hasNextPage =
                   (resolve_page q < \<lceil>real (length t) / real_of_int (resolve_limit q)\<rceil>),
                 hasPrevPage = (1 < resolve_page q) \<rparr>), t)"
    if "1 \<le> resolve_page q" "1 \<le> resolve_limit q"
    by (rule router_get_listing) (simp_all add: prisma_count_def prisma_findMany_page that)
  have l: "int (length (spec_page (resolve_page q) (resolve_limit q) t)) \<le> resolve_limit q"
    if "1 \<le> resolve_limit q"
    using spec_page_props(1) [of "resolve_page q" "resolve_limit q" t] that by linarith
  from g m l spec_page_props(2,3) show ?thesis
    by blast
qed

theorem router_get_pagination_witness:
  "resolve_page query_page2 = 2 \<and> resolve_limit query_page2 = 1
   \<and> safe_integer 2 \<and> safe_integer 1 \<and> safe_integer ((2 - 1) * 1)
   \<and> safe_integer (int (length db_ab))
   \<and> router_get (prisma env_a) query_page2 db_ab
     = ((200, Listing [property_a]
          \<lparr> currentPage = 2, totalPages = 2, totalItems = 2, itemsPerPage = 1,
            hasNextPage = False, hasPrevPage = True \<rparr>), db_ab)"
proof -
  have n: "length db_ab = 2"
    by (simp add: db_ab_def)
  have h: "1 \<le> resolve_page query_page2 \<and> 1 \<le> resolve_limit query_page2
      \<and> safe_integer (resolve_page query_page2) \<and> safe_integer (resolve_limit query_page2)
      \<and> safe_integer ((resolve_page query_page2 - 1) * resolve_limit query_page2)
      \<and> safe_integer (int (length db_ab))"
    by (simp add: resolve_query_page2 safe_integer_def n)
  have "router_get (prisma env_a) query_page2 db_ab
          = ((200, Listing (spec_page (resolve_page query_page2) (resolve_limit query_page2) db_ab)
               \<lparr> currentPage = resolve_page query_page2,
                 totalPages = \<lceil>real (length db_ab) / real_of_int (resolve_limit query_page2)\<rceil>,
                 totalItems = int (length db_ab),
                 itemsPerPage = resolve_limit query_page2,
                 hasNextPage =
                   (resolve_page query_page2
                      < \<lceil>real (length db_ab) / real_of_int (resolve_limit query_page2)\<rceil>),
                 hasPrevPage = (1 < resolve_page query_page2) \<rparr>), db_ab)"
    using router_get_pagination [where q = query_page2 and n = 0 and c = "prisma env_a"
        and s = db_ab and ps = "[]" and e = env_a and t = db_ab] h
    by blast
  then have "router_get (prisma env_a) query_page2 db_ab
     = ((200, Listing [property_a]
          \<lparr> currentPage = 2, totalPages = 2, totalItems = 2, itemsPerPage = 1,
            hasNextPage = False, hasPrevPage = True \<rparr>), db_ab)"
    by (simp add: resolve_query_page2 spec_page_ab n)
  moreover have "safe_integer 2 \<and> safe_integer 1 \<and> safe_integer ((2 - 1) * 1)
      \<and> safe_integer (int (length db_ab))"
    by (simp add: safe_integer_def n)
  ultimately show ?thesis
    by (simp add: resolve_query_page2)
qed

end
